theory Spec2Isabelle
  imports Complex_Main "HOL-Library.Char_ord" "HOL-Library.List_Lexorder"
begin

section \<open>Staging of lab extensions: \<^verbatim>\<open>jupyterlab/dynamic_labextensions.py\<close>\<close>

text \<open>
  The development embeds the decision logic of \<^verbatim>\<open>dynamic_labextensions.py\<close>:
  \<^verbatim>\<open>_get_labextension_dir\<close>, \<^verbatim>\<open>_should_copy\<close>, \<^verbatim>\<open>_maybe_copy\<close>,
  \<^verbatim>\<open>develop_labextension\<close> and \<^verbatim>\<open>develop_labextension_py\<close>.
  Python strings are \<open>string\<close>; the functions of \<^verbatim>\<open>posixpath\<close> the module uses are
  written out on strings as the standard library computes them (the platform is POSIX, so
  \<^verbatim>\<open>os.path\<close> is \<^verbatim>\<open>posixpath\<close>).
  Calls of \<^verbatim>\<open>logger\<close> are left out: they change neither a result nor the file system.
\<close>

subsection \<open>Strings and \<^verbatim>\<open>posixpath\<close>\<close>

definition sep :: char where
  "sep = CHR ''/''"

definition startswith :: "string \<Rightarrow> string \<Rightarrow> bool" where
  "startswith s p = (take (length p) s = p)"

definition endswith :: "string \<Rightarrow> string \<Rightarrow> bool" where
  "endswith s p = (length p \<le> length s \<and> drop (length s - length p) s = p)"

text \<open>\<^verbatim>\<open>s.split('/')\<close>: the pieces between separators, empty pieces kept.\<close>

fun split_sep :: "string \<Rightarrow> string list" where
  "split_sep [] = [[]]"
| "split_sep (c # cs) =
     (if c = sep then [] # split_sep cs
      else (case split_sep cs of [] \<Rightarrow> [[c]] | w # ws \<Rightarrow> (c # w) # ws))"

text \<open>\<^verbatim>\<open>'/'.join(comps)\<close>.\<close>

fun join_sep :: "string list \<Rightarrow> string" where
  "join_sep [] = []"
| "join_sep [w] = w"
| "join_sep (w # ws) = w @ [sep] @ join_sep ws"

text \<open>\<^verbatim>\<open>', '.join(items)\<close>.\<close>

fun join_comma :: "string list \<Rightarrow> string" where
  "join_comma [] = []"
| "join_comma [w] = w"
| "join_comma (w # ws) = w @ '', '' @ join_comma ws"

text \<open>
  \<^verbatim>\<open>posixpath.join(a, *p)\<close>: an absolute piece restarts the path, a piece is appended
  directly to an empty path or one that ends in a separator, and after a separator otherwise.
\<close>

definition join_step :: "string \<Rightarrow> string \<Rightarrow> string" where
  "join_step path b =
     (if startswith b [sep] then b
      else if path = [] \<or> endswith path [sep] then path @ b
      else path @ [sep] @ b)"

definition pjoin :: "string \<Rightarrow> string list \<Rightarrow> string" where
  "pjoin a p = foldl join_step a p"

text \<open>
  \<^verbatim>\<open>posixpath.split(p)\<close>: \<^verbatim>\<open>i = p.rfind('/') + 1\<close>, head \<^verbatim>\<open>p[:i]\<close> and tail
  \<^verbatim>\<open>p[i:]\<close>; trailing separators are stripped from a head that is not all separators.
  \<^verbatim>\<open>basename\<close> is the tail and \<^verbatim>\<open>dirname\<close> the head.
\<close>

definition basename :: "string \<Rightarrow> string" where
  "basename p = rev (takeWhile (\<lambda>c. c \<noteq> sep) (rev p))"

definition rstrip_sep :: "string \<Rightarrow> string" where
  "rstrip_sep s = rev (dropWhile (\<lambda>c. c = sep) (rev s))"

definition dirname :: "string \<Rightarrow> string" where
  "dirname p =
     (let head = rev (dropWhile (\<lambda>c. c \<noteq> sep) (rev p))
      in if head \<noteq> [] \<and> (\<exists>c \<in> set head. c \<noteq> sep) then rstrip_sep head else head)"

definition psplit :: "string \<Rightarrow> string \<times> string" where
  "psplit p = (dirname p, basename p)"

text \<open>
  \<^verbatim>\<open>posixpath.normpath\<close>: the loop over the components keeps a list \<^verbatim>\<open>new_comps\<close>;
  \<open>initial_slashes\<close> is 0, 1 or 2 (exactly two leading separators are kept).
\<close>

definition initial_slashes :: "string \<Rightarrow> nat" where
  "initial_slashes path =
     (if \<not> startswith path [sep] then 0
      else if startswith path [sep, sep] \<and> \<not> startswith path [sep, sep, sep] then 2
      else 1)"

definition norm_step :: "nat \<Rightarrow> string list \<Rightarrow> string \<Rightarrow> string list" where
  "norm_step ini new_comps piece =
     (if piece = [] \<or> piece = ''.'' then new_comps
      else if piece \<noteq> ''..'' \<or> (ini = 0 \<and> new_comps = [])
              \<or> (new_comps \<noteq> [] \<and> last new_comps = ''..'')
           then new_comps @ [piece]
      else if new_comps \<noteq> [] then butlast new_comps
      else new_comps)"

definition normpath :: "string \<Rightarrow> string" where
  "normpath path =
     (if path = [] then ''.''
      else
        let ini = initial_slashes path;
            comps = foldl (norm_step ini) [] (split_sep path);
            p = replicate ini sep @ join_sep comps
        in if p = [] then ''.'' else p)"

definition isabs :: "string \<Rightarrow> bool" where
  "isabs p = startswith p [sep]"

text \<open>\<^verbatim>\<open>posixpath.abspath\<close>, with the working directory \<^verbatim>\<open>os.getcwd()\<close> as an argument.\<close>

definition abspath :: "string \<Rightarrow> string \<Rightarrow> string" where
  "abspath cwd p = normpath (if isabs p then p else pjoin cwd [p])"

subsection \<open>\<^verbatim>\<open>repr\<close> of the selector values\<close>

text \<open>
  \<^verbatim>\<open>repr\<close> of a \<^verbatim>\<open>bool\<close> and of a \<^verbatim>\<open>str\<close>. A character of a \<open>string\<close> stands for
  the code point of the same number (below 256). Python quotes with \<^verbatim>\<open>'\<close> unless the
  string has a \<^verbatim>\<open>'\<close> and no \<^verbatim>\<open>"\<close>; it escapes the quote, the backslash, tab, newline and
  carriage return, and writes the other non-printable code points as \<^verbatim>\<open>\xhh\<close>.
\<close>

definition py_repr_bool :: "bool \<Rightarrow> string" where
  "py_repr_bool b = (if b then ''True'' else ''False'')"

definition squote :: char where
  "squote = CHR 0x27"

definition dquote :: char where
  "dquote = CHR 0x22"

definition backslash :: char where
  "backslash = CHR 0x5C"

definition hex_digit :: "nat \<Rightarrow> char" where
  "hex_digit n = ''0123456789abcdef'' ! (n mod 16)"

definition printable :: "char \<Rightarrow> bool" where
  "printable c =
     (let n = (of_char c :: nat)
      in (32 \<le> n \<and> n < 127) \<or> (161 \<le> n \<and> n \<noteq> 173))"

definition py_repr_char :: "char \<Rightarrow> char \<Rightarrow> string" where
  "py_repr_char q c =
     (if c = q \<or> c = backslash then [backslash, c]
      else if c = CHR 0x09 then [backslash, CHR ''t'']
      else if c = CHR 0x0A then [backslash, CHR ''n'']
      else if c = CHR 0x0D then [backslash, CHR ''r'']
      else if \<not> printable c
           then [backslash, CHR ''x'', hex_digit (of_char c div 16), hex_digit (of_char c)]
      else [c])"

definition py_repr_str :: "string \<Rightarrow> string" where
  "py_repr_str s =
     (let q = (if squote \<in> set s \<and> dquote \<notin> set s then dquote else squote)
      in [q] @ concat (map (py_repr_char q) s) @ [q])"

subsection \<open>Errors\<close>

text \<open>
  The exceptions the module can raise. \<open>OSError\<close> stands for the \<^verbatim>\<open>OSError\<close> family of
  the file-system calls, with the kind and the path it is about.
\<close>

datatype oserror =
  FileExistsError | FileNotFoundError | NotADirectoryError | IsADirectoryError
  | SameFileError | TooManyLinks | ExistsNotDirectory | RmtreeOnLink

datatype error =
  ArgumentConflict string
  | NameError string
  | TypeError string
  | ValueError string
  | KeyError string
  | IndexError
  | RecursionError
  | OSError oserror string

subsection \<open>Destination resolution: \<^verbatim>\<open>_get_labextension_dir\<close>\<close>

text \<open>
  What the module takes from its surroundings: \<^verbatim>\<open>jupyter_data_dir()\<close>,
  \<^verbatim>\<open>ENV_JUPYTER_PATH\<close> and \<^verbatim>\<open>SYSTEM_JUPYTER_PATH\<close> of \<^verbatim>\<open>jupyter_core.paths\<close>.
  \<open>recursion_limit\<close> is the number of nested \<^verbatim>\<open>os.walk\<close> generators the interpreter
  runs before it raises \<^verbatim>\<open>RecursionError\<close> (\<^verbatim>\<open>os.walk\<close> recurses once per directory
  level).
\<close>

record env =
  jupyter_data_dir :: string
  ENV_JUPYTER_PATH :: "string list"
  SYSTEM_JUPYTER_PATH :: "string list"
  recursion_limit :: nat

text \<open>
  The names \<^verbatim>\<open>dynamic_labextensions.py\<close> binds at module level, by its imports,
  assignments and function definitions: the namespace in which a global name of a
  function body is looked up when it is evaluated. \<^verbatim>\<open>ArgumentConflict\<close> is not among
  them (no import and no class statement binds it).
\<close>

definition dynamic_labextensions_globals :: "string list" where
  "dynamic_labextensions_globals =
     [''print_function'', ''json'', ''os'', ''osp'', ''shutil'', ''sys'', ''tarfile'',
      ''zipfile'', ''basename'', ''pjoin'', ''normpath'', ''subprocess'', ''urlparse'',
      ''urlretrieve'', ''jupyter_data_dir'', ''jupyter_config_path'', ''jupyter_path'',
      ''SYSTEM_JUPYTER_PATH'', ''ENV_JUPYTER_PATH'', ''ensure_dir_exists'',
      ''string_types'', ''cast_unicode_py2'', ''TemporaryDirectory'',
      ''BaseJSONConfigManager'', ''import_item'', ''build'', ''AppOptions'',
      ''DEPRECATED_ARGUMENT'', ''HERE'', ''develop_labextension'',
      ''develop_labextension_py'', ''build_labextension'', ''watch_labextension'',
      ''_ensure_builder'', ''_should_copy'', ''_maybe_copy'', ''_get_labextension_dir'',
      ''_get_labextension_metadata'']"

text \<open>The four keyword arguments, typed as the docstring gives them.\<close>

record selectors =
  user :: bool
  sys_prefix :: bool
  prefix :: "string option"
  labextensions_dir :: "string option"

text \<open>Truth value of an optional string: \<^verbatim>\<open>None\<close> and \<^verbatim>\<open>''\<close> are false.\<close>

definition truthy :: "string option \<Rightarrow> bool" where
  "truthy v = (case v of None \<Rightarrow> False | Some s \<Rightarrow> s \<noteq> [])"

definition py_repr_opt :: "string option \<Rightarrow> string" where
  "py_repr_opt v = (case v of None \<Rightarrow> ''None'' | Some s \<Rightarrow> py_repr_str s)"

text \<open>
  The list \<^verbatim>\<open>conflicting\<close> of lines 293-298, each value with its truth value and its
  \<^verbatim>\<open>repr\<close>, and the list \<^verbatim>\<open>conflicting_set\<close> of line 299.
\<close>

definition conflicting :: "selectors \<Rightarrow> (string \<times> bool \<times> string) list" where
  "conflicting s =
     [(''user'', user s, py_repr_bool (user s)),
      (''prefix'', truthy (prefix s), py_repr_opt (prefix s)),
      (''labextensions_dir'', truthy (labextensions_dir s), py_repr_opt (labextensions_dir s)),
      (''sys_prefix'', sys_prefix s, py_repr_bool (sys_prefix s))]"

definition conflicting_set :: "selectors \<Rightarrow> string list" where
  "conflicting_set s = [n @ ''='' @ r. (n, v, r) \<leftarrow> conflicting s, v]"

definition conflict_message :: "selectors \<Rightarrow> string" where
  "conflict_message s =
     ''cannot specify more than one of user, sys_prefix, prefix, or labextensions_dir, but got: ''
       @ join_comma (conflicting_set s)"

text \<open>\<^verbatim>\<open>xs[0]\<close> raises \<^verbatim>\<open>IndexError\<close> on an empty list.\<close>

definition first_entry :: "string list \<Rightarrow> error + string" where
  "first_entry xs = (case xs of [] \<Rightarrow> Inl IndexError | x # _ \<Rightarrow> Inr x)"

text \<open>
  \<^verbatim>\<open>raise ArgumentConflict(...)\<close> evaluates the name \<^verbatim>\<open>ArgumentConflict\<close> first, before
  the argument: a name the module does not bind raises \<^verbatim>\<open>NameError\<close>.
\<close>

definition get_labextension_dir :: "env \<Rightarrow> selectors \<Rightarrow> error + string" where
  "get_labextension_dir e s =
     (if length (conflicting_set s) > 1 then
        (if ''ArgumentConflict'' \<in> set dynamic_labextensions_globals
         then Inl (ArgumentConflict (conflict_message s))
         else Inl (NameError ''ArgumentConflict''))
      else if user s then Inr (pjoin (jupyter_data_dir e) [''labextensions''])
      else if sys_prefix s then
        (case first_entry (ENV_JUPYTER_PATH e) of
           Inl err \<Rightarrow> Inl err
         | Inr p \<Rightarrow> Inr (pjoin p [''labextensions'']))
      else if truthy (prefix s) then
        Inr (pjoin (the (prefix s)) [''share'', ''jupyter'', ''labextensions''])
      else if truthy (labextensions_dir s) then Inr (the (labextensions_dir s))
      else
        (case first_entry (SYSTEM_JUPYTER_PATH e) of
           Inl err \<Rightarrow> Inl err
         | Inr p \<Rightarrow> Inr (pjoin p [''labextensions''])))"

subsection \<open>Modification times: \<^verbatim>\<open>st_mtime\<close> as a binary64 float\<close>

text \<open>
  A file system keeps a modification time in whole nanoseconds (\<^verbatim>\<open>st_mtime_ns\<close>).
  \<^verbatim>\<open>os.stat(p).st_mtime\<close> is the float the interpreter computes from it as
  \<^verbatim>\<open>sec + 1e-9*nsec\<close> in C doubles, and line 248 subtracts two such floats and compares
  the difference with the float \<^verbatim>\<open>1e-6\<close>. A finite binary64 number is written
  \<open>Double m e\<close>, standing for \<open>m \<times> 2\<^sup>e\<close>; a result of an operation is the exact result
  rounded to 53 significant bits, ties to the even mantissa. The exponent range of
  binary64 is not modelled: sums, products and differences of times of a 64-bit
  \<^verbatim>\<open>time_t\<close> stay far inside it.
\<close>

datatype double = Double int int

text \<open>The number of binary digits of a positive integer.\<close>

function bit_length :: "int \<Rightarrow> nat" where
  "bit_length n = (if n \<le> 0 then 0 else Suc (bit_length (n div 2)))"
  by pat_completeness auto
termination
  by (relation "measure nat") auto

text \<open>\<open>m / 2\<^sup>s\<close> rounded to the nearest integer, a tie to the even one.\<close>

definition round_shift :: "int \<Rightarrow> nat \<Rightarrow> int" where
  "round_shift m s =
     (if s = 0 then m
      else let q = m div 2 ^ s; r = m mod 2 ^ s; h = 2 ^ (s - 1)
           in if r > h \<or> (r = h \<and> odd q) then q + 1 else q)"

definition round53 :: "int \<Rightarrow> int \<Rightarrow> double" where
  "round53 m e =
     (let b = bit_length \<bar>m\<bar>
      in if b \<le> 53 then Double m e
         else Double (round_shift m (b - 53)) (e + int (b - 53)))"

text \<open>Two numbers over their smaller exponent: the two mantissas and that exponent.\<close>

fun align :: "double \<Rightarrow> double \<Rightarrow> int \<times> int \<times> int" where
  "align (Double m1 e1) (Double m2 e2) =
     (let e = min e1 e2 in (m1 * 2 ^ nat (e1 - e), m2 * 2 ^ nat (e2 - e), e))"

definition dadd :: "double \<Rightarrow> double \<Rightarrow> double" where
  "dadd a b = (case align a b of (x, y, e) \<Rightarrow> round53 (x + y) e)"

definition dsub :: "double \<Rightarrow> double \<Rightarrow> double" where
  "dsub a b = (case align a b of (x, y, e) \<Rightarrow> round53 (x - y) e)"

fun dmul :: "double \<Rightarrow> double \<Rightarrow> double" where
  "dmul (Double m1 e1) (Double m2 e2) = round53 (m1 * m2) (e1 + e2)"

definition dless :: "double \<Rightarrow> double \<Rightarrow> bool" where
  "dless a b = (case align a b of (x, y, e) \<Rightarrow> x < y)"

definition double_of_int :: "int \<Rightarrow> double" where
  "double_of_int n = round53 n 0"

text \<open>The number a \<open>double\<close> stands for.\<close>

fun dval :: "double \<Rightarrow> real" where
  "dval (Double m e) = (if e \<ge> 0 then of_int m * 2 ^ nat e else of_int m / 2 ^ nat (- e))"

text \<open>
  The float literals \<^verbatim>\<open>1e-6\<close> (\<^verbatim>\<open>0x1.0c6f7a0b5ed8dp-20\<close>) and \<^verbatim>\<open>1e-9\<close>
  (\<^verbatim>\<open>0x1.12e0be826d695p-30\<close>): the doubles nearest to the decimal numbers.
\<close>

definition float_1e_6 :: double where
  "float_1e_6 = Double 4722366482869645 (- 72)"

definition float_1e_9 :: double where
  "float_1e_9 = Double 4835703278458517 (- 82)"

text \<open>\<^verbatim>\<open>st_mtime\<close> of a time in nanoseconds: \<^verbatim>\<open>sec + 1e-9*nsec\<close>.\<close>

definition st_mtime :: "int \<Rightarrow> double" where
  "st_mtime ns =
     dadd (double_of_int (ns div 1000000000))
          (dmul float_1e_9 (double_of_int (ns mod 1000000000)))"

subsection \<open>The file system\<close>

text \<open>
  A file-system entry is a directory, a regular file or a symbolic link. Files and
  directories carry the modification time in nanoseconds; a file also has its
  permission bits and its content. An entry is found under its key, the list of the
  names on the way from the root through real directories (its physical path).
  The world holds the entries in the order a directory listing yields them, the
  working directory, the time new directories are stamped with, and the log of the
  \<^verbatim>\<open>os\<close>, \<^verbatim>\<open>os.path\<close> and \<^verbatim>\<open>shutil\<close> calls made so far (oldest first).

  Calls fail for structural reasons only (an entry missing, present, or of the wrong
  kind, too many links), not for permissions or exhausted space. The modification
  time of a directory is not advanced when entries are added to it, and there are no
  hard links: two paths are the same file where they resolve to the same key.
\<close>

type_synonym key = "string list"

datatype node = Dir int | File int nat string | Link string

datatype call =
  Exists string | Lexists string | Isdir string | Islink string | Stat string
  | EnsureDirExists string | Makedirs string bool | Rmtree string | Remove string
  | Symlink string string | Copy2 string string | Scandir string

record world =
  files :: "(key \<times> node) list"
  cwd :: string
  now :: int
  log :: "call list"

fun mutating :: "call \<Rightarrow> bool" where
  "mutating (EnsureDirExists _) = True"
| "mutating (Makedirs _ _) = True"
| "mutating (Rmtree _) = True"
| "mutating (Remove _) = True"
| "mutating (Symlink _ _) = True"
| "mutating (Copy2 _ _) = True"
| "mutating _ = False"

fun is_Dir :: "node \<Rightarrow> bool" where
  "is_Dir (Dir _) = True"
| "is_Dir _ = False"

fun is_Link :: "node \<Rightarrow> bool" where
  "is_Link (Link _) = True"
| "is_Link _ = False"

fun node_mtime :: "node \<Rightarrow> int" where
  "node_mtime (Dir t) = t"
| "node_mtime (File t _ _) = t"
| "node_mtime (Link _) = 0"

text \<open>The root directory always exists.\<close>

definition node_at :: "(key \<times> node) list \<Rightarrow> key \<Rightarrow> node option" where
  "node_at fs k = (if k = [] then Some (Dir 0) else map_of fs k)"

definition max_links :: nat where
  "max_links = 40"

text \<open>
  Path resolution, as the kernel walks a path: from the directory \<open>cur\<close>, name by
  name. An empty name and \<^verbatim>\<open>.\<close> stay, \<^verbatim>\<open>..\<close> goes to the parent directory, a name is
  looked up in \<open>cur\<close>. A symbolic link that is not the last name is always followed, the
  last name only with \<open>fl\<close>; its target is walked from the root if absolute and from
  the directory of the link otherwise, with the remaining names after it; at most
  \<open>n\<close> links are followed. The result is the key reached with the entry there, or with
  \<open>None\<close> where only the last name is missing (its directory exists).
\<close>

fun resolve ::
  "(key \<times> node) list \<Rightarrow> nat \<Rightarrow> bool \<Rightarrow> key \<Rightarrow> string list \<Rightarrow> oserror + key \<times> node option" where
  "resolve fs n fl cur [] = Inr (cur, node_at fs cur)"
| "resolve fs n fl cur (c # cs) =
     (case node_at fs cur of
        None \<Rightarrow> Inl FileNotFoundError
      | Some (Dir _) \<Rightarrow>
          if c = [] \<or> c = ''.'' then resolve fs n fl cur cs
          else if c = ''..'' then
            (case node_at fs (butlast cur) of
               Some (Dir _) \<Rightarrow> resolve fs n fl (butlast cur) cs
             | _ \<Rightarrow> Inl FileNotFoundError)
          else
            (case node_at fs (cur @ [c]) of
               None \<Rightarrow> if cs = [] then Inr (cur @ [c], None) else Inl FileNotFoundError
             | Some (Link t) \<Rightarrow>
                 if cs = [] \<and> \<not> fl then Inr (cur @ [c], Some (Link t))
                 else (case n of
                         0 \<Rightarrow> Inl TooManyLinks
                       | Suc m \<Rightarrow>
                           if t = [] then Inl FileNotFoundError
                           else resolve fs m fl (if isabs t then [] else cur)
                                  (split_sep t @ cs))
             | Some nd \<Rightarrow> resolve fs n fl (cur @ [c]) cs)
      | Some _ \<Rightarrow> Inl NotADirectoryError)"

text \<open>
  \<^verbatim>\<open>os.getcwd()\<close> is an absolute path without \<^verbatim>\<open>.\<close>, \<^verbatim>\<open>..\<close> and links: its names are
  the key of the working directory.
\<close>

definition cwd_key :: "world \<Rightarrow> key" where
  "cwd_key w = filter (\<lambda>c. c \<noteq> []) (split_sep (cwd w))"

text \<open>A path of the program, resolved in a world. The empty path names nothing.\<close>

definition lookup :: "world \<Rightarrow> bool \<Rightarrow> string \<Rightarrow> oserror + key \<times> node option" where
  "lookup w fl p =
     (if p = [] then Inl FileNotFoundError
      else resolve (files w) max_links fl (if isabs p then [] else cwd_key w) (split_sep p))"

text \<open>
  \<^verbatim>\<open>os.stat\<close> (links followed) and \<^verbatim>\<open>os.lstat\<close> (the last name itself): the entry, or
  the kind of \<^verbatim>\<open>OSError\<close> raised. \<open>stat_node\<close> and \<open>lstat_node\<close> forget the kind.
\<close>

definition found :: "oserror + key \<times> node option \<Rightarrow> oserror + node" where
  "found r =
     (case r of
        Inl e \<Rightarrow> Inl e
      | Inr (k, None) \<Rightarrow> Inl FileNotFoundError
      | Inr (k, Some nd) \<Rightarrow> Inr nd)"

definition stat_result :: "world \<Rightarrow> string \<Rightarrow> oserror + node" where
  "stat_result w p = found (lookup w True p)"

definition lstat_result :: "world \<Rightarrow> string \<Rightarrow> oserror + node" where
  "lstat_result w p = found (lookup w False p)"

definition stat_node :: "world \<Rightarrow> string \<Rightarrow> node option" where
  "stat_node w p = (case stat_result w p of Inl e \<Rightarrow> None | Inr nd \<Rightarrow> Some nd)"

definition lstat_node :: "world \<Rightarrow> string \<Rightarrow> node option" where
  "lstat_node w p = (case lstat_result w p of Inl e \<Rightarrow> None | Inr nd \<Rightarrow> Some nd)"

text \<open>The names in a directory, in the order the world lists them.\<close>

definition children :: "(key \<times> node) list \<Rightarrow> key \<Rightarrow> string list" where
  "children fs k = [last k'. (k', nd) \<leftarrow> fs, k' \<noteq> [] \<and> butlast k' = k]"

definition under :: "key \<Rightarrow> key \<Rightarrow> bool" where
  "under k k' = (take (length k) k' = k)"

definition put_node :: "key \<Rightarrow> node \<Rightarrow> world \<Rightarrow> world" where
  "put_node k nd w = w\<lparr>files := (if map_of (files w) k = None then files w @ [(k, nd)]
                                   else map (\<lambda>(k', nd'). if k' = k then (k', nd) else (k', nd')) (files w))\<rparr>"

definition drop_node :: "key \<Rightarrow> world \<Rightarrow> world" where
  "drop_node k w = w\<lparr>files := filter (\<lambda>(k', nd). k' \<noteq> k) (files w)\<rparr>"

definition drop_tree :: "key \<Rightarrow> world \<Rightarrow> world" where
  "drop_tree k w = w\<lparr>files := filter (\<lambda>(k', nd). \<not> under k k') (files w)\<rparr>"

subsection \<open>Calls that may raise and change the world\<close>

type_synonym 'a io = "world \<Rightarrow> (error + 'a) \<times> world"

definition return :: "'a \<Rightarrow> 'a io" where
  "return x = (\<lambda>w. (Inr x, w))"

definition raise :: "error \<Rightarrow> 'a io" where
  "raise e = (\<lambda>w. (Inl e, w))"

definition io_bind :: "'a io \<Rightarrow> ('a \<Rightarrow> 'b io) \<Rightarrow> 'b io" where
  "io_bind m f = (\<lambda>w. case m w of (Inl e, w') \<Rightarrow> (Inl e, w') | (Inr x, w') \<Rightarrow> f x w')"

definition logged :: "call \<Rightarrow> world \<Rightarrow> world" where
  "logged c w = w\<lparr>log := log w @ [c]\<rparr>"

text \<open>The tests of \<^verbatim>\<open>os.path\<close>: they never raise.\<close>

definition os_path_exists :: "string \<Rightarrow> bool io" where
  "os_path_exists p = (\<lambda>w. (Inr (stat_node w p \<noteq> None), logged (Exists p) w))"

definition os_path_lexists :: "string \<Rightarrow> bool io" where
  "os_path_lexists p = (\<lambda>w. (Inr (lstat_node w p \<noteq> None), logged (Lexists p) w))"

definition os_path_isdir :: "string \<Rightarrow> bool io" where
  "os_path_isdir p =
     (\<lambda>w. (Inr (case stat_node w p of Some (Dir _) \<Rightarrow> True | _ \<Rightarrow> False), logged (Isdir p) w))"

definition os_path_islink :: "string \<Rightarrow> bool io" where
  "os_path_islink p =
     (\<lambda>w. (Inr (case lstat_node w p of Some (Link _) \<Rightarrow> True | _ \<Rightarrow> False), logged (Islink p) w))"

text \<open>\<^verbatim>\<open>os.stat(p).st_mtime\<close>.\<close>

definition os_stat_mtime :: "string \<Rightarrow> double io" where
  "os_stat_mtime p =
     (\<lambda>w. (case stat_result w p of
              Inl e \<Rightarrow> Inl (OSError e p)
            | Inr nd \<Rightarrow> Inr (st_mtime (node_mtime nd)),
            logged (Stat p) w))"

text \<open>
  Making a new entry at a path whose last name is not followed: \<^verbatim>\<open>os.symlink\<close> and
  \<^verbatim>\<open>os.mkdir\<close> (which takes a path with trailing separators as the path without them).
\<close>

definition create_entry :: "string \<Rightarrow> string \<Rightarrow> node \<Rightarrow> unit io" where
  "create_entry p q nd =
     (\<lambda>w. case lookup w False q of
             Inl e \<Rightarrow> (Inl (OSError e p), w)
           | Inr (k, Some _) \<Rightarrow> (Inl (OSError FileExistsError p), w)
           | Inr (k, None) \<Rightarrow> (Inr (), put_node k nd w))"

definition os_symlink :: "string \<Rightarrow> string \<Rightarrow> unit io" where
  "os_symlink target p =
     (\<lambda>w. if target = [] then (Inl (OSError FileNotFoundError p), logged (Symlink target p) w)
          else create_entry p p (Link target) (logged (Symlink target p) w))"

definition os_mkdir :: "string \<Rightarrow> unit io" where
  "os_mkdir p =
     (\<lambda>w. create_entry p (if rstrip_sep p = [] then p else rstrip_sep p)
            (Dir (now w)) w)"

text \<open>\<^verbatim>\<open>os.remove(p)\<close>: unlinks the entry itself; a directory is refused.\<close>

definition os_remove :: "string \<Rightarrow> unit io" where
  "os_remove p =
     (\<lambda>w. let w' = logged (Remove p) w
          in (case lookup w False p of
                Inl e \<Rightarrow> (Inl (OSError e p), w')
              | Inr (k, None) \<Rightarrow> (Inl (OSError FileNotFoundError p), w')
              | Inr (k, Some (Dir _)) \<Rightarrow> (Inl (OSError IsADirectoryError p), w')
              | Inr (k, Some _) \<Rightarrow> (Inr (), drop_node k w')))"

text \<open>
  \<^verbatim>\<open>shutil.rmtree(p)\<close>: a real directory goes with everything under it (links in it
  are removed, not followed); a link is refused.
\<close>

definition shutil_rmtree :: "string \<Rightarrow> unit io" where
  "shutil_rmtree p =
     (\<lambda>w. let w' = logged (Rmtree p) w
          in (case lookup w False p of
                Inl e \<Rightarrow> (Inl (OSError e p), w')
              | Inr (k, None) \<Rightarrow> (Inl (OSError FileNotFoundError p), w')
              | Inr (k, Some (Dir _)) \<Rightarrow> (Inr (), drop_tree k w')
              | Inr (k, Some (Link _)) \<Rightarrow> (Inl (OSError RmtreeOnLink p), w')
              | Inr (k, Some _) \<Rightarrow> (Inl (OSError NotADirectoryError p), w')))"

text \<open>
  \<^verbatim>\<open>os.makedirs(name, exist_ok)\<close>, as the standard library writes it: the path is split
  into head and tail (once more where the tail is empty); where both are non-empty and
  the head does not exist, the head is made first (a \<^verbatim>\<open>FileExistsError\<close> of that call
  is passed over) and nothing more is done for a tail \<^verbatim>\<open>.\<close>; then \<^verbatim>\<open>os.mkdir(name)\<close>,
  whose error is passed over with \<^verbatim>\<open>exist_ok\<close> where the path is a directory.
\<close>

definition makedirs_split :: "string \<Rightarrow> string \<times> string" where
  "makedirs_split name =
     (if snd (psplit name) = [] then psplit (fst (psplit name)) else psplit name)"

definition mkdir_last :: "bool \<Rightarrow> string \<Rightarrow> unit io" where
  "mkdir_last exist_ok name =
     (\<lambda>w. case os_mkdir name w of
             (Inl e, w') \<Rightarrow>
               if \<not> exist_ok \<or> \<not> (case stat_node w' name of Some (Dir _) \<Rightarrow> True | _ \<Rightarrow> False)
               then (Inl e, w') else (Inr (), w')
           | (Inr u, w') \<Rightarrow> (Inr u, w'))"

definition makedirs_tail :: "bool \<Rightarrow> string \<Rightarrow> unit io" where
  "makedirs_tail exist_ok name =
     (if snd (makedirs_split name) = ''.'' then return () else mkdir_last exist_ok name)"

function makedirs :: "bool \<Rightarrow> string \<Rightarrow> unit io" where
  "makedirs exist_ok name =
     (\<lambda>w. if fst (makedirs_split name) \<noteq> [] \<and> snd (makedirs_split name) \<noteq> []
             \<and> stat_node w (fst (makedirs_split name)) = None
          then
            (case makedirs exist_ok (fst (makedirs_split name)) w of
               (Inl (OSError FileExistsError q), w') \<Rightarrow> makedirs_tail exist_ok name w'
             | (Inl e, w') \<Rightarrow> (Inl e, w')
             | (Inr u, w') \<Rightarrow> makedirs_tail exist_ok name w')
          else mkdir_last exist_ok name w)"
  by pat_completeness auto
termination
proof (relation "measure (\<lambda>(exist_ok, name). length name)")
  show "wf (measure (\<lambda>(exist_ok, name). length name))"
    by simp
next
  fix exist_ok :: bool and name :: string and w :: world
  assume "fst (makedirs_split name) \<noteq> [] \<and> snd (makedirs_split name) \<noteq> []
            \<and> stat_node w (fst (makedirs_split name)) = None"
  then have t: "snd (makedirs_split name) \<noteq> []"
    by simp
  have d: "length (dirname p) + length (basename p) \<le> length p" for p
  proof -
    have a: "length (dropWhile (\<lambda>c. c \<noteq> sep) (rev p))
               + length (takeWhile (\<lambda>c. c \<noteq> sep) (rev p)) = length p"
      using takeWhile_dropWhile_id [of "\<lambda>c. c \<noteq> sep" "rev p"]
      by (metis add.commute length_append length_rev)
    have r: "length (rstrip_sep s) \<le> length s" for s
      using length_dropWhile_le [of "\<lambda>c. c = sep" "rev s"] by (simp add: rstrip_sep_def)
    have "length (dirname p) \<le> length (dropWhile (\<lambda>c. c \<noteq> sep) (rev p))"
      using r [of "rev (dropWhile (\<lambda>c. c \<noteq> sep) (rev p))"]
      by (simp add: dirname_def Let_def)
    moreover have "length (basename p) = length (takeWhile (\<lambda>c. c \<noteq> sep) (rev p))"
      by (simp add: basename_def)
    ultimately show ?thesis
      using a by linarith
  qed
  have "length (fst (makedirs_split name)) < length name"
  proof (cases "snd (psplit name) = []")
    case True
    with t have "basename (dirname name) \<noteq> []"
      by (simp add: makedirs_split_def psplit_def)
    then have "length (dirname (dirname name)) < length (dirname name)"
      using d [of "dirname name"] by (cases "basename (dirname name)") auto
    moreover have "length (dirname name) \<le> length name"
      using d [of name] by simp
    ultimately show ?thesis
      using True by (simp add: makedirs_split_def psplit_def)
  next
    case False
    then have "basename name \<noteq> []"
      by (simp add: psplit_def)
    then have "length (dirname name) < length name"
      using d [of name] by (cases "basename name") auto
    with False show ?thesis
      by (simp add: makedirs_split_def psplit_def)
  qed
  then show "((exist_ok, fst (makedirs_split name)), (exist_ok, name))
               \<in> measure (\<lambda>(exist_ok, name). length name)"
    by simp
qed

definition os_makedirs :: "string \<Rightarrow> bool \<Rightarrow> unit io" where
  "os_makedirs p exist_ok = (\<lambda>w. makedirs exist_ok p (logged (Makedirs p exist_ok) w))"

text \<open>
  \<^verbatim>\<open>jupyter_core.utils.ensure_dir_exists\<close>: \<^verbatim>\<open>os.makedirs\<close> with an existing entry
  tolerated, then \<^verbatim>\<open>OSError\<close> unless the path is a directory.
\<close>

definition ensure_dir_exists :: "string \<Rightarrow> unit io" where
  "ensure_dir_exists p =
     (\<lambda>w. let check = (\<lambda>w'. if (case stat_node w' p of Some (Dir _) \<Rightarrow> True | _ \<Rightarrow> False)
                              then (Inr (), w') else (Inl (OSError ExistsNotDirectory p), w'))
          in (case makedirs False p (logged (EnsureDirExists p) w) of
                (Inl (OSError FileExistsError q), w') \<Rightarrow> check w'
              | (Inl e, w') \<Rightarrow> (Inl e, w')
              | (Inr u, w') \<Rightarrow> check w'))"

text \<open>
  \<^verbatim>\<open>shutil.copy2(src, dst)\<close>: into a directory the file goes under its base name; source
  and destination that are the same file are refused; the source is opened for reading
  and the destination for writing, both through links (a missing last entry is
  created, also behind a dangling link); the copy takes the source's content,
  permission bits and modification time. \<open>copy2_plan\<close> is what the call decides from the
  world: the error it raises, or the key it writes and the file it writes there.
\<close>

definition copy_dest :: "world \<Rightarrow> string \<Rightarrow> string \<Rightarrow> string" where
  "copy_dest w src dst =
     (case stat_node w dst of Some (Dir _) \<Rightarrow> pjoin dst [basename src] | _ \<Rightarrow> dst)"

definition samefile :: "world \<Rightarrow> string \<Rightarrow> string \<Rightarrow> bool" where
  "samefile w a b =
     (case (lookup w True a, lookup w True b) of
        (Inr (k, Some _), Inr (k', Some _)) \<Rightarrow> k = k'
      | _ \<Rightarrow> False)"

definition copy2_plan :: "world \<Rightarrow> string \<Rightarrow> string \<Rightarrow> error + key \<times> node" where
  "copy2_plan w src dst =
     (let dst' = copy_dest w src dst
      in if samefile w src dst' then Inl (OSError SameFileError src)
         else (case stat_result w src of
                 Inl e \<Rightarrow> Inl (OSError e src)
               | Inr (Dir _) \<Rightarrow> Inl (OSError IsADirectoryError src)
               | Inr (Link _) \<Rightarrow> Inl (OSError FileNotFoundError src)
               | Inr (File t m c) \<Rightarrow>
                   (case lookup w True dst' of
                      Inl e \<Rightarrow> Inl (OSError e dst')
                    | Inr (k, Some (Dir _)) \<Rightarrow> Inl (OSError IsADirectoryError dst')
                    | Inr (k, Some (Link _)) \<Rightarrow> Inl (OSError TooManyLinks dst')
                    | Inr (k, _) \<Rightarrow> Inr (k, File t m c))))"

definition shutil_copy2 :: "string \<Rightarrow> string \<Rightarrow> unit io" where
  "shutil_copy2 src dst =
     (\<lambda>w. case copy2_plan w src dst of
             Inl e \<Rightarrow> (Inl e, logged (Copy2 src dst) w)
           | Inr (k, nd) \<Rightarrow> (Inr (), put_node k nd (logged (Copy2 src dst) w)))"

text \<open>
  \<^verbatim>\<open>os.walk(top)\<close>, top-down, links to directories not entered, errors of the listing
  ignored. One directory is listed (names that are directories, a link judged by what
  it leads to, and the other names); the loop body runs on it; then the walk recurses
  into each directory of the list that is not a link. The loop body is the argument
  \<open>body\<close>.
\<close>

definition entry_is_dir :: "world \<Rightarrow> string \<Rightarrow> key \<Rightarrow> string \<Rightarrow> bool" where
  "entry_is_dir w tp k name =
     (case node_at (files w) (k @ [name]) of
        Some (Dir _) \<Rightarrow> True
      | Some (Link _) \<Rightarrow> (case stat_node w (pjoin tp [name]) of Some (Dir _) \<Rightarrow> True | _ \<Rightarrow> False)
      | _ \<Rightarrow> False)"

definition scan :: "world \<Rightarrow> string \<Rightarrow> (string list \<times> string list) option" where
  "scan w tp =
     (case lookup w True tp of
        Inr (k, Some (Dir _)) \<Rightarrow>
          let names = children (files w) k
          in Some (filter (entry_is_dir w tp k) names,
                   filter (\<lambda>n. \<not> entry_is_dir w tp k n) names)
      | _ \<Rightarrow> None)"

function walk :: "nat \<Rightarrow> (string \<Rightarrow> string list \<Rightarrow> string list \<Rightarrow> unit io) \<Rightarrow> string \<Rightarrow> unit io"
  and walk_dirs :: "nat \<Rightarrow> (string \<Rightarrow> string list \<Rightarrow> string list \<Rightarrow> unit io) \<Rightarrow> string
                     \<Rightarrow> string list \<Rightarrow> unit io"
where
  "walk 0 body tp = raise RecursionError"
| "walk (Suc n) body tp =
     (\<lambda>w. case scan w tp of
             None \<Rightarrow> (Inr (), logged (Scandir tp) w)
           | Some (dirs, nondirs) \<Rightarrow>
               io_bind (body tp dirs nondirs) (\<lambda>_. walk_dirs n body tp dirs)
                 (logged (Scandir tp) w))"
| "walk_dirs n body tp [] = return ()"
| "walk_dirs n body tp (d # ds) =
     (\<lambda>w. let new_path = pjoin tp [d]
          in if (case lstat_node w new_path of Some (Link _) \<Rightarrow> True | _ \<Rightarrow> False)
             then walk_dirs n body tp ds w
             else io_bind (walk n body new_path) (\<lambda>_. walk_dirs n body tp ds) w)"
  by pat_completeness auto
termination
  by (relation "inv_image (less_than <*lex*> less_than)
        (\<lambda>x. case x of Inl (n, body, tp) \<Rightarrow> (n, 0)
                      | Inr (n, body, tp, ds) \<Rightarrow> (n, Suc (length ds)))") auto

subsection \<open>The staleness check and the copy: \<^verbatim>\<open>_should_copy\<close>, \<^verbatim>\<open>_maybe_copy\<close>\<close>

text \<open>
  The source's names start with an underscore, which an Isabelle name cannot: the
  definitions drop it. Line 248 is a subtraction and a comparison of floats.
\<close>

definition should_copy :: "string \<Rightarrow> string \<Rightarrow> bool io" where
  "should_copy src dest =
     io_bind (os_path_exists dest) (\<lambda>ex.
       if \<not> ex then return True
       else io_bind (os_stat_mtime src) (\<lambda>ms.
            io_bind (os_stat_mtime dest) (\<lambda>md.
              if dless float_1e_6 (dsub ms md) then return True
              else return False)))"

definition maybe_copy :: "string \<Rightarrow> string \<Rightarrow> unit io" where
  "maybe_copy src dest =
     io_bind (should_copy src dest) (\<lambda>stale.
       if stale then shutil_copy2 src dest else return ())"

subsection \<open>Staging one extension: \<^verbatim>\<open>develop_labextension\<close>\<close>

text \<open>The argument \<^verbatim>\<open>path\<close> is a string, or a list or a tuple (which line 86 refuses).\<close>

datatype pypath = PStr string | PList "string list" | PTuple "string list"

definition path_type_error :: string where
  "path_type_error = ''path must be a string pointing to a single extension to install; call this function multiple times to install multiple extensions''"

text \<open>\<^verbatim>\<open>os.path.abspath\<close> reads the working directory of the world.\<close>

definition os_path_abspath :: "string \<Rightarrow> string io" where
  "os_path_abspath p = (\<lambda>w. (Inr (abspath (cwd w) p), w))"

text \<open>Lines 96-102: with \<^verbatim>\<open>overwrite\<close>, an entry at the destination is removed.\<close>

definition remove_existing :: "bool \<Rightarrow> string \<Rightarrow> unit io" where
  "remove_existing overwrite full_dest =
     (if overwrite then
        io_bind (os_path_lexists full_dest) (\<lambda>present.
          if present then
            io_bind (os_path_isdir full_dest) (\<lambda>isd.
              if isd then
                io_bind (os_path_islink full_dest) (\<lambda>isl.
                  if \<not> isl then shutil_rmtree full_dest else os_remove full_dest)
              else os_remove full_dest)
          else return ())
      else return ())"

text \<open>Lines 107-114: the link branch; \<open>path\<close> is already absolute.\<close>

definition link_extension :: "string \<Rightarrow> string \<Rightarrow> unit io" where
  "link_extension path full_dest =
     io_bind (os_path_exists full_dest) (\<lambda>ex.
       if \<not> ex then os_symlink path full_dest
       else io_bind (os_path_islink full_dest) (\<lambda>isl.
         if \<not> isl then raise (ValueError (path @ '' exists and is not a symlink''))
         else return ()))"

text \<open>Lines 124-127: the loop over the files of one directory.\<close>

fun copy_files :: "string \<Rightarrow> string \<Rightarrow> string list \<Rightarrow> unit io" where
  "copy_files parent dest_dir [] = return ()"
| "copy_files parent dest_dir (file_name # rest) =
     io_bind (maybe_copy (pjoin parent [file_name]) (pjoin dest_dir [file_name]))
       (\<lambda>_. copy_files parent dest_dir rest)"

text \<open>Lines 119-127: the body of the loop over \<^verbatim>\<open>os.walk(path)\<close>.\<close>

definition stage_dir :: "string \<Rightarrow> string \<Rightarrow> string \<Rightarrow> string list \<Rightarrow> string list \<Rightarrow> unit io" where
  "stage_dir path full_dest parent dirs fs =
     (let dest_dir = pjoin full_dest [drop (length path) parent]
      in io_bind (os_path_exists dest_dir) (\<lambda>ex.
           io_bind (if \<not> ex then os_makedirs dest_dir False else return ())
             (\<lambda>_. copy_files parent dest_dir fs)))"

definition develop_labextension ::
  "env \<Rightarrow> pypath \<Rightarrow> bool \<Rightarrow> bool \<Rightarrow> bool \<Rightarrow> string option \<Rightarrow> string option \<Rightarrow> bool
     \<Rightarrow> string io" where
  "develop_labextension e path symlink overwrite usr labext_dir destination sys_pre =
     (case get_labextension_dir e
             \<lparr>user = usr, sys_prefix = sys_pre, prefix = None, labextensions_dir = labext_dir\<rparr> of
        Inl err \<Rightarrow> raise err
      | Inr labext \<Rightarrow>
          io_bind (ensure_dir_exists labext) (\<lambda>_.
            case path of
              PList _ \<Rightarrow> raise (TypeError path_type_error)
            | PTuple _ \<Rightarrow> raise (TypeError path_type_error)
            | PStr path \<Rightarrow>
                let destination = (if truthy destination then the destination
                                   else basename (normpath path));
                    full_dest = normpath (pjoin labext [destination])
                in io_bind (remove_existing overwrite full_dest) (\<lambda>_.
                   io_bind (os_makedirs (dirname full_dest) True) (\<lambda>_.
                   io_bind
                     (if symlink then
                        io_bind (os_path_abspath path) (\<lambda>path. link_extension path full_dest)
                      else
                        io_bind (os_path_isdir path) (\<lambda>isd.
                          if isd then
                            io_bind (os_path_abspath path) (\<lambda>a.
                              let path = pjoin a [[]]
                              in walk (recursion_limit e) (stage_dir path full_dest) path)
                          else maybe_copy path full_dest))
                     (\<lambda>_. return full_dest)))))"

subsection \<open>Staging the extensions of a package: \<^verbatim>\<open>develop_labextension_py\<close>\<close>

text \<open>
  \<^verbatim>\<open>_get_labextension_metadata(module)\<close> imports the module; its outcome is an argument:
  an error, or the module's \<^verbatim>\<open>__file__\<close> with the list of dictionaries
  \<^verbatim>\<open>_jupyter_labextension_paths()\<close> returned. A dictionary is a map; a missing key
  raises \<^verbatim>\<open>KeyError\<close>.
\<close>

type_synonym dict = "string \<rightharpoonup> string"

fun install_all ::
  "env \<Rightarrow> string \<Rightarrow> bool \<Rightarrow> bool \<Rightarrow> bool \<Rightarrow> bool \<Rightarrow> string option \<Rightarrow> dict list
     \<Rightarrow> string list \<Rightarrow> string list io" where
  "install_all e base_path usr sys_pre overwrite symlink labext_dir [] full_dests =
     return full_dests"
| "install_all e base_path usr sys_pre overwrite symlink labext_dir (labext # rest) full_dests =
     (case labext ''src'' of
        None \<Rightarrow> raise (KeyError ''src'')
      | Some s \<Rightarrow>
          let src = pjoin base_path [s]
          in (case labext ''dest'' of
                None \<Rightarrow> raise (KeyError ''dest'')
              | Some dest \<Rightarrow>
                  io_bind (develop_labextension e (PStr src) symlink overwrite usr labext_dir
                             (Some dest) sys_pre)
                    (\<lambda>full_dest. install_all e base_path usr sys_pre overwrite symlink
                                   labext_dir rest (full_dests @ [full_dest]))))"

definition develop_labextension_py ::
  "env \<Rightarrow> (error + string \<times> dict list) \<Rightarrow> bool \<Rightarrow> bool \<Rightarrow> bool \<Rightarrow> bool \<Rightarrow> string option
     \<Rightarrow> string list io" where
  "develop_labextension_py e metadata usr sys_pre overwrite symlink labext_dir =
     (case metadata of
        Inl err \<Rightarrow> raise err
      | Inr (m_file, labexts) \<Rightarrow>
          let base_path = fst (psplit m_file)
          in install_all e base_path usr sys_pre overwrite symlink labext_dir labexts [])"

subsection \<open>Notions the properties are stated with\<close>

text \<open>The number of selectors that are set (truthy).\<close>

definition set_count :: "selectors \<Rightarrow> nat" where
  "set_count s =
     length (filter id [user s, sys_prefix s, truthy (prefix s), truthy (labextensions_dir s)])"

text \<open>
  The enumeration as the specification words it, for comparison with \<open>conflicting_set\<close>:
  the selectors that are set with their values, sorted by selector name.
\<close>

definition conflicting_set_by_name :: "selectors \<Rightarrow> string list" where
  "conflicting_set_by_name s = [n @ ''='' @ r. (n, v, r) \<leftarrow> sort_key fst (conflicting s), v]"

definition conflict_error_by_name :: "selectors \<Rightarrow> error" where
  "conflict_error_by_name s =
     ArgumentConflict
       (''cannot specify more than one of user, sys_prefix, prefix, or labextensions_dir, but got: ''
          @ join_comma (conflicting_set_by_name s))"

text \<open>The calls a run adds to the log.\<close>

definition new_calls :: "world \<Rightarrow> world \<Rightarrow> call list" where
  "new_calls w w' = drop (length (log w)) (log w')"

text \<open>Concrete surroundings for the examples.\<close>

definition example_env :: env where
  "example_env =
     \<lparr>jupyter_data_dir = ''/home/u/.local/share/jupyter'',
      ENV_JUPYTER_PATH = [''/env/share/jupyter''],
      SYSTEM_JUPYTER_PATH = [''/usr/local/share/jupyter'', ''/usr/share/jupyter''],
      recursion_limit = 900\<rparr>"

definition example_world :: world where
  "example_world =
     \<lparr>files = [([''ext''], Dir 1),
               ([''ext'', ''foo''], Dir 2),
               ([''ext'', ''foo'', ''a.js''], File 5 420 ''a''),
               ([''lab''], Dir 3)],
      cwd = ''/'', now = 100, log = []\<rparr>"

text \<open>
  The steps of \<^verbatim>\<open>develop_labextension\<close> by name: the selectors it passes on, the
  destination name and path of lines 91-95, the preparation of lines 84-105 (the root is
  ensured, an entry is removed under \<^verbatim>\<open>overwrite\<close>, the parent directory is made), and
  the staging of lines 107-130.
\<close>

definition selectors_of :: "bool \<Rightarrow> bool \<Rightarrow> string option \<Rightarrow> selectors" where
  "selectors_of usr sys_pre labext_dir =
     \<lparr>user = usr, sys_prefix = sys_pre, prefix = None, labextensions_dir = labext_dir\<rparr>"

definition destination_name :: "string option \<Rightarrow> string \<Rightarrow> string" where
  "destination_name destination path =
     (if truthy destination then the destination else basename (normpath path))"

definition final_dest :: "string \<Rightarrow> string option \<Rightarrow> string \<Rightarrow> string" where
  "final_dest labext destination path =
     normpath (pjoin labext [destination_name destination path])"

definition prepare :: "bool \<Rightarrow> string \<Rightarrow> string \<Rightarrow> unit io" where
  "prepare overwrite labext full_dest =
     io_bind (ensure_dir_exists labext) (\<lambda>_.
     io_bind (remove_existing overwrite full_dest) (\<lambda>_.
       os_makedirs (dirname full_dest) True))"

definition stage :: "env \<Rightarrow> bool \<Rightarrow> string \<Rightarrow> string \<Rightarrow> unit io" where
  "stage e symlink path full_dest =
     (if symlink then
        io_bind (os_path_abspath path) (\<lambda>path. link_extension path full_dest)
      else
        io_bind (os_path_isdir path) (\<lambda>isd.
          if isd then
            io_bind (os_path_abspath path) (\<lambda>a.
              let path = pjoin a [[]]
              in walk (recursion_limit e) (stage_dir path full_dest) path)
          else maybe_copy path full_dest))"

text \<open>A package with two extensions, the second of which has no source on disk.\<close>

definition example_labexts :: "dict list" where
  "example_labexts =
     [[''src'' \<mapsto> ''foo'', ''dest'' \<mapsto> ''x''], [''src'' \<mapsto> ''two'', ''dest'' \<mapsto> ''y'']]"

text \<open>
  Worlds in which the destination \<^verbatim>\<open>/lab/foo\<close> is taken: by a regular file, by a link
  to the existing \<^verbatim>\<open>/ext/old\<close>, and by a link whose target \<^verbatim>\<open>/gone\<close> does not exist.
\<close>

definition example_world_file :: world where
  "example_world_file =
     example_world\<lparr>files := files example_world @ [([''lab'', ''foo''], File 9 420 ''old'')]\<rparr>"

definition example_world_link :: world where
  "example_world_link =
     example_world\<lparr>files := files example_world
                               @ [([''ext'', ''old''], Dir 1), ([''lab'', ''foo''], Link ''/ext/old'')]\<rparr>"

definition example_world_dangling :: world where
  "example_world_dangling =
     example_world\<lparr>files := files example_world @ [([''lab'', ''foo''], Link ''/gone'')]\<rparr>"

text \<open>An action all of whose calls, in every world, satisfy \<open>P\<close>.\<close>

definition only_calls :: "(call \<Rightarrow> bool) \<Rightarrow> 'a io \<Rightarrow> bool" where
  "only_calls P m = (\<forall>w. \<exists>cs. log (snd (m w)) = log w @ cs \<and> list_all P cs)"
text \<open>
  A world with a staged directory \<^verbatim>\<open>/lab/foo\<close> (holding \<^verbatim>\<open>old.js\<close>), a neighbour
  \<^verbatim>\<open>/lab/keep\<close> and a link \<^verbatim>\<open>/lab/foolink\<close> to the directory \<^verbatim>\<open>/ext/foo\<close>.
\<close>

definition example_world_tree :: world where
  "example_world_tree =
     example_world\<lparr>files := files example_world
                               @ [([''lab'', ''foo''], Dir 4),
                                  ([''lab'', ''foo'', ''old.js''], File 4 420 ''old''),
                                  ([''lab'', ''keep''], File 4 420 ''k''),
                                  ([''lab'', ''foolink''], Link ''/ext/foo'')]\<rparr>"
text \<open>
  A world for the arithmetic of times: \<^verbatim>\<open>/ext/a.js\<close> is one microsecond newer than
  \<^verbatim>\<open>/lab/a.js\<close>, and \<^verbatim>\<open>/ext/b.js\<close> is 1010 nanoseconds newer than \<^verbatim>\<open>/lab/b.js\<close>.
\<close>

definition example_world_times :: world where
  "example_world_times =
     \<lparr>files = [([''ext''], Dir 1),
               ([''ext'', ''a.js''], File 5000001000 420 ''a''),
               ([''ext'', ''b.js''], File 1700000000000001010 420 ''b''),
               ([''lab''], Dir 1),
               ([''lab'', ''a.js''], File 5000000000 420 ''a''),
               ([''lab'', ''b.js''], File 1700000000000000000 420 ''b'')],
      cwd = ''/'', now = 100, log = []\<rparr>"


subsection \<open>Destination resolution\<close>

lemma length_conflicting_set: "length (conflicting_set s) = set_count s"
  by (simp add: conflicting_set_def conflicting_def set_count_def)

lemma conflicting_set_unfold:
  "conflicting_set s =
     (if user s then [''user=True''] else [])
     @ (if truthy (prefix s) then [''prefix='' @ py_repr_str (the (prefix s))] else [])
     @ (if truthy (labextensions_dir s)
        then [''labextensions_dir='' @ py_repr_str (the (labextensions_dir s))] else [])
     @ (if sys_prefix s then [''sys_prefix=True''] else [])"
  by (auto simp add: conflicting_set_def conflicting_def py_repr_bool_def py_repr_opt_def
        truthy_def split: option.splits)

lemma ArgumentConflict_unbound: "''ArgumentConflict'' \<notin> set dynamic_labextensions_globals"
  by code_simp

lemma get_labextension_dir_conflict:
  assumes "2 \<le> set_count s"
  shows "get_labextension_dir e s = Inl (NameError ''ArgumentConflict'')"
  using assms ArgumentConflict_unbound
  by (simp add: get_labextension_dir_def length_conflicting_set)

lemma develop_labextension_unresolved:
  assumes "get_labextension_dir e (selectors_of usr sys_pre labext_dir) = Inl err"
  shows "develop_labextension e path symlink overwrite usr labext_dir destination sys_pre w
           = (Inl err, w)"
proof -
  have a: "get_labextension_dir e
             \<lparr>user = usr, sys_prefix = sys_pre, prefix = None, labextensions_dir = labext_dir\<rparr>
           = Inl err"
    using assms by (simp only: selectors_of_def)
  show ?thesis
    by (subst develop_labextension_def, subst a) (simp only: sum.case raise_def)
qed

lemma develop_labextension_conflict:
  assumes "2 \<le> set_count (selectors_of usr sys_pre labext_dir)"
  shows "develop_labextension e path symlink overwrite usr labext_dir destination sys_pre w
           = (Inl (NameError ''ArgumentConflict''), w)"
  by (rule develop_labextension_unresolved) (rule get_labextension_dir_conflict [OF assms])

lemma endswith_sep: "endswith s [sep] \<longleftrightarrow> s \<noteq> [] \<and> last s = sep"
proof (cases s rule: rev_cases)
  case Nil
  then show ?thesis by (simp add: endswith_def)
next
  case (snoc ys y)
  then show ?thesis by (simp add: endswith_def)
qed

lemma join_step_plain:
  assumes "s \<noteq> []" "last s \<noteq> sep" "b = [] \<or> hd b \<noteq> sep"
  shows "join_step s b = s @ [sep] @ b"
  using assms by (cases b) (simp_all add: join_step_def endswith_sep startswith_def)

lemma join_step_first:
  assumes "b \<noteq> []" "hd b \<noteq> sep" "last b \<noteq> sep"
  shows "\<exists>q. join_step p b = q @ b \<and> (\<forall>c. join_step p (b @ c) = q @ b @ c)"
proof (cases "p = [] \<or> endswith p [sep]")
  case True
  with assms show ?thesis
    by (cases b) (auto simp add: join_step_def startswith_def)
next
  case False
  with assms have "join_step p b = (p @ [sep]) @ b \<and> (\<forall>c. join_step p (b @ c) = (p @ [sep]) @ b @ c)"
    by (cases b) (auto simp add: join_step_def startswith_def)
  then show ?thesis by blast
qed

lemma pjoin_share_jupyter:
  "pjoin p [''share'', ''jupyter'', ''labextensions''] = pjoin p [''share/jupyter/labextensions'']"
proof -
  obtain q where q: "join_step p ''share'' = q @ ''share''"
    and q2: "\<And>c. join_step p (''share'' @ c) = q @ ''share'' @ c"
    using join_step_first [of "''share''" p] by (auto simp add: sep_def)
  have a: "join_step (q @ ''share'') ''jupyter'' = (q @ ''share'') @ [sep] @ ''jupyter''"
    by (rule join_step_plain) (simp_all add: sep_def)
  have b: "join_step ((q @ ''share'') @ [sep] @ ''jupyter'') ''labextensions''
             = ((q @ ''share'') @ [sep] @ ''jupyter'') @ [sep] @ ''labextensions''"
    by (rule join_step_plain) (simp_all add: sep_def)
  have "pjoin p [''share'', ''jupyter'', ''labextensions'']
          = join_step (join_step (join_step p ''share'') ''jupyter'') ''labextensions''"
    by (simp add: pjoin_def)
  also have "\<dots> = ((q @ ''share'') @ [sep] @ ''jupyter'') @ [sep] @ ''labextensions''"
    by (simp only: q a b)
  also have "\<dots> = q @ ''share'' @ ''/jupyter/labextensions''"
    by (simp add: sep_def)
  also have "\<dots> = join_step p (''share'' @ ''/jupyter/labextensions'')"
    by (rule q2 [symmetric])
  finally show ?thesis
    by (simp add: pjoin_def)
qed

text \<open>
  C1. The claim: with two or more selectors set, resolution fails with the conflict
  error whose message enumerates the set selectors. The code at \<^verbatim>\<open>user=True\<close>,
  \<^verbatim>\<open>sys_prefix=True\<close>: two selectors are set, line 301 evaluates the name
  \<^verbatim>\<open>ArgumentConflict\<close>, which the module never binds, and \<^verbatim>\<open>NameError\<close> is raised
  instead of the conflict error the line is written to raise (no message is built);
  \<^verbatim>\<open>develop_labextension\<close> passes the \<^verbatim>\<open>NameError\<close> on, with the world as it was.
\<close>

theorem conflicting_selectors_name_error:
  "set_count \<lparr>user = True, sys_prefix = True, prefix = None, labextensions_dir = None\<rparr> = 2
   \<and> get_labextension_dir example_env
        \<lparr>user = True, sys_prefix = True, prefix = None, labextensions_dir = None\<rparr>
       = Inl (NameError ''ArgumentConflict'')
   \<and> get_labextension_dir example_env
        \<lparr>user = True, sys_prefix = True, prefix = None, labextensions_dir = None\<rparr>
       \<noteq> Inl (conflict_error_by_name
                \<lparr>user = True, sys_prefix = True, prefix = None, labextensions_dir = None\<rparr>)
   \<and> develop_labextension example_env (PStr ''/ext/foo'') True False True None None True
        example_world
       = (Inl (NameError ''ArgumentConflict''), example_world)"
proof -
  let ?s = "\<lparr>user = True, sys_prefix = True, prefix = None, labextensions_dir = None\<rparr>"
  have c: "set_count ?s = 2"
    by (simp add: set_count_def truthy_def)
  then have h: "2 \<le> set_count ?s"
    by simp
  have n: "get_labextension_dir example_env ?s = Inl (NameError ''ArgumentConflict'')"
    by (rule get_labextension_dir_conflict [OF h])
  have d: "develop_labextension example_env (PStr ''/ext/foo'') True False True None None True
             example_world = (Inl (NameError ''ArgumentConflict''), example_world)"
    by (rule develop_labextension_conflict)
       (simp add: selectors_of_def set_count_def truthy_def)
  have x: "(Inl (NameError ''ArgumentConflict'') :: error + string)
             \<noteq> Inl (conflict_error_by_name ?s)"
    unfolding conflict_error_by_name_def by (simp only: sum.inject error.distinct) simp
  from c n d x show ?thesis
    by (simp only: simp_thms)
qed

text \<open>
  C2. With exactly one selector set the root is the documented one, and with none set it
  is the first system path joined with \<^verbatim>\<open>labextensions\<close>. The two search paths are
  lists; the mapping reads their first entry, so they are taken non-empty (as
  \<^verbatim>\<open>jupyter_core\<close> defines them).
\<close>

theorem destination_root_mapping:
  "(user s \<and> \<not> sys_prefix s \<and> \<not> truthy (prefix s) \<and> \<not> truthy (labextensions_dir s)
      \<longrightarrow> get_labextension_dir e s = Inr (pjoin (jupyter_data_dir e) [''labextensions'']))
   \<and> (\<not> user s \<and> sys_prefix s \<and> \<not> truthy (prefix s) \<and> \<not> truthy (labextensions_dir s)
        \<and> ENV_JUPYTER_PATH e \<noteq> []
      \<longrightarrow> get_labextension_dir e s = Inr (pjoin (hd (ENV_JUPYTER_PATH e)) [''labextensions'']))
   \<and> (\<not> user s \<and> \<not> sys_prefix s \<and> truthy (prefix s) \<and> \<not> truthy (labextensions_dir s)
      \<longrightarrow> get_labextension_dir e s
            = Inr (pjoin (the (prefix s)) [''share/jupyter/labextensions'']))
   \<and> (\<not> user s \<and> \<not> sys_prefix s \<and> \<not> truthy (prefix s) \<and> truthy (labextensions_dir s)
      \<longrightarrow> get_labextension_dir e s = Inr (the (labextensions_dir s)))
   \<and> (\<not> user s \<and> \<not> sys_prefix s \<and> \<not> truthy (prefix s) \<and> \<not> truthy (labextensions_dir s)
        \<and> SYSTEM_JUPYTER_PATH e \<noteq> []
      \<longrightarrow> get_labextension_dir e s
            = Inr (pjoin (hd (SYSTEM_JUPYTER_PATH e)) [''labextensions'']))"
proof -
  have len: "length (conflicting_set s) \<le> 1"
    if "set_count s \<le> 1"
    using that by (simp add: length_conflicting_set)
  have one: "set_count s \<le> 1"
    if "\<not> (user s \<and> sys_prefix s)" "\<not> (user s \<and> truthy (prefix s))"
       "\<not> (user s \<and> truthy (labextensions_dir s))" "\<not> (sys_prefix s \<and> truthy (prefix s))"
       "\<not> (sys_prefix s \<and> truthy (labextensions_dir s))"
       "\<not> (truthy (prefix s) \<and> truthy (labextensions_dir s))"
    using that by (auto simp add: set_count_def)
  show ?thesis
    by (auto simp add: get_labextension_dir_def length_conflicting_set set_count_def
          first_entry_def pjoin_share_jupyter split: list.splits)
qed

theorem destination_root_mapping_witness:
  "get_labextension_dir example_env
      \<lparr>user = True, sys_prefix = False, prefix = None, labextensions_dir = None\<rparr>
     = Inr ''/home/u/.local/share/jupyter/labextensions''
   \<and> get_labextension_dir example_env
      \<lparr>user = False, sys_prefix = True, prefix = None, labextensions_dir = None\<rparr>
     = Inr ''/env/share/jupyter/labextensions''
   \<and> get_labextension_dir example_env
      \<lparr>user = False, sys_prefix = False, prefix = Some ''/opt'', labextensions_dir = None\<rparr>
     = Inr ''/opt/share/jupyter/labextensions''
   \<and> get_labextension_dir example_env
      \<lparr>user = False, sys_prefix = False, prefix = None, labextensions_dir = Some ''/lab''\<rparr>
     = Inr ''/lab''
   \<and> get_labextension_dir example_env
      \<lparr>user = False, sys_prefix = False, prefix = None, labextensions_dir = None\<rparr>
     = Inr ''/usr/local/share/jupyter/labextensions''"
  using destination_root_mapping
      [of "\<lparr>user = True, sys_prefix = False, prefix = None, labextensions_dir = None\<rparr>"
          example_env]
    destination_root_mapping
      [of "\<lparr>user = False, sys_prefix = True, prefix = None, labextensions_dir = None\<rparr>"
          example_env]
    destination_root_mapping
      [of "\<lparr>user = False, sys_prefix = False, prefix = Some ''/opt'', labextensions_dir = None\<rparr>"
          example_env]
    destination_root_mapping
      [of "\<lparr>user = False, sys_prefix = False, prefix = None, labextensions_dir = Some ''/lab''\<rparr>"
          example_env]
    destination_root_mapping
      [of "\<lparr>user = False, sys_prefix = False, prefix = None, labextensions_dir = None\<rparr>"
          example_env]
  by (simp add: truthy_def example_env_def pjoin_def join_step_def startswith_def
        endswith_def sep_def)

subsection \<open>The staleness check\<close>

lemma files_logged [simp]: "files (logged c w) = files w"
  by (simp add: logged_def)

lemma log_logged [simp]: "log (logged c w) = log w @ [c]"
  by (simp add: logged_def)

lemma cwd_logged [simp]: "cwd (logged c w) = cwd w"
  by (simp add: logged_def)

lemma now_logged [simp]: "now (logged c w) = now w"
  by (simp add: logged_def)

lemma lookup_logged [simp]: "lookup (logged c w) fl p = lookup w fl p"
  by (simp add: lookup_def cwd_key_def)

lemma stat_result_logged [simp]: "stat_result (logged c w) p = stat_result w p"
  by (simp add: stat_result_def)

lemma lstat_result_logged [simp]: "lstat_result (logged c w) p = lstat_result w p"
  by (simp add: lstat_result_def)

lemma stat_node_logged [simp]: "stat_node (logged c w) p = stat_node w p"
  by (simp add: stat_node_def)

lemma lstat_node_logged [simp]: "lstat_node (logged c w) p = lstat_node w p"
  by (simp add: lstat_node_def)


lemma stat_node_Some: "stat_node w p = Some nd \<longleftrightarrow> stat_result w p = Inr nd"
  by (cases "stat_result w p") (simp_all add: stat_node_def)

lemma should_copy_missing_dest:
  assumes "stat_node w dest = None"
  shows "should_copy src dest w = (Inr True, logged (Exists dest) w)"
  using assms
  by (simp add: should_copy_def io_bind_def os_path_exists_def return_def)

lemma should_copy_present_dest:
  assumes "stat_node w dest = Some nd" and "stat_node w src = Some ns"
  shows "should_copy src dest w =
           (Inr (dless float_1e_6 (dsub (st_mtime (node_mtime ns)) (st_mtime (node_mtime nd)))),
            logged (Stat dest) (logged (Stat src) (logged (Exists dest) w)))"
  using assms
  by (simp add: should_copy_def io_bind_def os_path_exists_def os_stat_mtime_def return_def
        stat_node_Some)

lemma should_copy_missing_src:
  assumes "stat_node w dest = Some nd" and "stat_result w src = Inl k"
  shows "should_copy src dest w =
           (Inl (OSError k src), logged (Stat src) (logged (Exists dest) w))"
  using assms
  by (simp add: should_copy_def io_bind_def os_path_exists_def os_stat_mtime_def return_def)

lemma should_copy_reads_only:
  "files (snd (should_copy src dest w)) = files w
   \<and> (\<forall>c \<in> set (new_calls w (snd (should_copy src dest w))). \<not> mutating c)"
proof (cases "stat_node w dest")
  case None
  then show ?thesis by (simp add: should_copy_missing_dest new_calls_def)
next
  case (Some nd)
  then show ?thesis
    by (cases "stat_result w src")
       (simp_all add: should_copy_missing_src should_copy_present_dest new_calls_def
          stat_node_Some [symmetric])
qed

lemma dsub_same: "dsub a a = Double 0 (snd (snd (align a a)))"
  by (cases a) (simp add: dsub_def round53_def Let_def)

lemma not_dless_zero: "\<not> dless float_1e_6 (Double 0 e)"
  by (simp add: dless_def float_1e_6_def Let_def)

text \<open>
  C3, as the code has it. The staleness check answers true where the destination does
  not exist, whatever the source is (only \<^verbatim>\<open>os.path.exists(dest)\<close> is called). Where
  both exist it answers true exactly when the difference of the two \<^verbatim>\<open>st_mtime\<close>
  floats, computed in binary64, is greater than the float \<^verbatim>\<open>1e-6\<close>, and false
  otherwise; it answers false where the two modification times are equal. It changes
  no entry and makes no mutating call.
\<close>

theorem should_copy_staleness:
  "(stat_node w dest = None \<longrightarrow>
      should_copy src dest w = (Inr True, logged (Exists dest) w))
   \<and> (stat_node w dest = Some nd \<and> stat_node w src = Some ns
      \<longrightarrow> fst (should_copy src dest w)
            = Inr (dless float_1e_6
                     (dsub (st_mtime (node_mtime ns)) (st_mtime (node_mtime nd)))))
   \<and> (stat_node w dest = Some nd \<and> stat_node w src = Some ns
        \<and> node_mtime ns = node_mtime nd
      \<longrightarrow> fst (should_copy src dest w) = Inr False)
   \<and> files (snd (should_copy src dest w)) = files w
   \<and> (\<forall>c \<in> set (new_calls w (snd (should_copy src dest w))). \<not> mutating c)"
proof -
  have 1: "stat_node w dest = None \<longrightarrow>
      should_copy src dest w = (Inr True, logged (Exists dest) w)"
    by (simp add: should_copy_missing_dest)
  have 2: "stat_node w dest = Some nd \<and> stat_node w src = Some ns
      \<longrightarrow> fst (should_copy src dest w)
            = Inr (dless float_1e_6
                     (dsub (st_mtime (node_mtime ns)) (st_mtime (node_mtime nd))))"
    by (simp add: should_copy_present_dest)
  have 3: "stat_node w dest = Some nd \<and> stat_node w src = Some ns
        \<and> node_mtime ns = node_mtime nd
      \<longrightarrow> fst (should_copy src dest w) = Inr False"
    by (simp add: should_copy_present_dest dsub_same not_dless_zero)
  from 1 2 3 should_copy_reads_only [of src dest w] show ?thesis by blast
qed

theorem should_copy_staleness_witness:
  "should_copy ''/ext/foo/a.js'' ''/lab/foo/a.js'' example_world
     = (Inr True, logged (Exists ''/lab/foo/a.js'') example_world)
   \<and> fst (should_copy ''/ext/a.js'' ''/lab/a.js'' example_world_times) = Inr True
   \<and> fst (should_copy ''/ext/b.js'' ''/lab/b.js'' example_world_times) = Inr False
   \<and> fst (should_copy ''/ext/a.js'' ''/ext/a.js'' example_world_times) = Inr False
   \<and> \<not> (\<exists>c \<in> set (new_calls example_world_times
                       (snd (should_copy ''/ext/a.js'' ''/lab/a.js'' example_world_times))).
           mutating c)"
proof -
  have a: "stat_node example_world ''/lab/foo/a.js'' = None"
    by code_simp
  have b: "stat_node example_world_times ''/ext/a.js'' = Some (File 5000001000 420 ''a'')"
    by code_simp
  have c: "stat_node example_world_times ''/lab/a.js'' = Some (File 5000000000 420 ''a'')"
    by code_simp
  have d: "stat_node example_world_times ''/ext/b.js''
             = Some (File 1700000000000001010 420 ''b'')"
    by code_simp
  have e: "stat_node example_world_times ''/lab/b.js''
             = Some (File 1700000000000000000 420 ''b'')"
    by code_simp
  have x: "dless float_1e_6 (dsub (st_mtime 5000001000) (st_mtime 5000000000))"
    by code_simp
  have y: "\<not> dless float_1e_6
               (dsub (st_mtime 1700000000000001010) (st_mtime 1700000000000000000))"
    by code_simp
  from should_copy_staleness [of example_world "''/lab/foo/a.js''" "''/ext/foo/a.js''"] a
  have 1: "should_copy ''/ext/foo/a.js'' ''/lab/foo/a.js'' example_world
     = (Inr True, logged (Exists ''/lab/foo/a.js'') example_world)"
    by blast
  from should_copy_staleness
         [of example_world_times "''/lab/a.js''" "''/ext/a.js''"
             "File 5000000000 420 ''a''" "File 5000001000 420 ''a''"] b c x
  have 2: "fst (should_copy ''/ext/a.js'' ''/lab/a.js'' example_world_times) = Inr True"
    and 5: "\<forall>c \<in> set (new_calls example_world_times
                     (snd (should_copy ''/ext/a.js'' ''/lab/a.js'' example_world_times))).
         \<not> mutating c"
    by simp_all
  from should_copy_staleness
         [of example_world_times "''/lab/b.js''" "''/ext/b.js''"
             "File 1700000000000000000 420 ''b''" "File 1700000000000001010 420 ''b''"] d e y
  have 3: "fst (should_copy ''/ext/b.js'' ''/lab/b.js'' example_world_times) = Inr False"
    by simp
  from should_copy_staleness
         [of example_world_times "''/ext/a.js''" "''/ext/a.js''"
             "File 5000001000 420 ''a''" "File 5000001000 420 ''a''"] b
  have 4: "fst (should_copy ''/ext/a.js'' ''/ext/a.js'' example_world_times) = Inr False"
    by (simp add: dsub_same not_dless_zero)
  from 1 2 3 4 5 show ?thesis by blast
qed

text \<open>
  C3 as stated fails in \<open>example_world_times\<close>. \<^verbatim>\<open>/lab/a.js\<close> is exactly
  \<open>10\<^sup>-\<^sup>6\<close> seconds (1000 nanoseconds) older than \<^verbatim>\<open>/ext/a.js\<close>, so the destination's
  time is at least the source's less \<open>10\<^sup>-\<^sup>6\<close> (also when that is computed in floats),
  and the check answers true. \<^verbatim>\<open>/ext/b.js\<close> is 1010 nanoseconds newer than
  \<^verbatim>\<open>/lab/b.js\<close>, more than \<open>10\<^sup>-\<^sup>6\<close> seconds, and the check answers false: the two
  floats differ by \<open>2\<^sup>-\<^sup>2\<^sup>0\<close>.
\<close>

theorem should_copy_staleness_counterexample:
  "stat_node example_world_times ''/ext/a.js'' = Some (File 5000001000 420 ''a'')
   \<and> stat_node example_world_times ''/lab/a.js'' = Some (File 5000000000 420 ''a'')
   \<and> (5000000000 :: int) \<ge> 5000001000 - 1000
   \<and> \<not> dless (st_mtime 5000000000) (dsub (st_mtime 5000001000) float_1e_6)
   \<and> fst (should_copy ''/ext/a.js'' ''/lab/a.js'' example_world_times) = Inr True
   \<and> stat_node example_world_times ''/ext/b.js'' = Some (File 1700000000000001010 420 ''b'')
   \<and> stat_node example_world_times ''/lab/b.js'' = Some (File 1700000000000000000 420 ''b'')
   \<and> (1700000000000001010 :: int) - 1700000000000000000 > 1000
   \<and> dsub (st_mtime 1700000000000001010) (st_mtime 1700000000000000000) = Double 4 (- 22)
   \<and> fst (should_copy ''/ext/b.js'' ''/lab/b.js'' example_world_times) = Inr False"
  by code_simp



subsection \<open>The steps of \<^verbatim>\<open>develop_labextension\<close>\<close>

lemma io_bind_assoc: "io_bind (io_bind m f) g = io_bind m (\<lambda>x. io_bind (f x) g)"
  by (rule ext) (simp add: io_bind_def split: prod.splits sum.splits)

lemma io_bind_Inl: "m w = (Inl err, w') \<Longrightarrow> io_bind m f w = (Inl err, w')"
  by (simp add: io_bind_def)

lemma io_bind_Inr: "m w = (Inr x, w') \<Longrightarrow> io_bind m f w = f x w'"
  by (simp add: io_bind_def)

lemma develop_labextension_steps:
  assumes "get_labextension_dir e (selectors_of usr sys_pre labext_dir) = Inr labext"
  shows "develop_labextension e (PStr path) symlink overwrite usr labext_dir destination sys_pre =
           io_bind (prepare overwrite labext (final_dest labext destination path)) (\<lambda>_.
           io_bind (stage e symlink path (final_dest labext destination path)) (\<lambda>_.
             return (final_dest labext destination path)))"
  using assms
  by (simp add: develop_labextension_def selectors_of_def prepare_def stage_def final_dest_def
        destination_name_def io_bind_assoc Let_def)

lemma develop_labextension_result:
  assumes "develop_labextension e (PStr path) symlink overwrite usr labext_dir destination sys_pre w
             = (Inr d, w')"
  shows "\<exists>labext. get_labextension_dir e (selectors_of usr sys_pre labext_dir) = Inr labext
           \<and> d = final_dest labext destination path"
proof (cases "get_labextension_dir e (selectors_of usr sys_pre labext_dir)")
  case (Inl err)
  from develop_labextension_unresolved [OF this] assms show ?thesis by simp
next
  case (Inr labext)
  from assms have "d = final_dest labext destination path"
    unfolding develop_labextension_steps [OF Inr]
    by (auto simp add: io_bind_def return_def split: prod.splits sum.splits)
  with Inr show ?thesis by simp
qed

subsection \<open>Several extensions\<close>

lemma install_all_acc:
  "install_all e b u sp ow sl ld labexts acc w =
     (case install_all e b u sp ow sl ld labexts [] w of
        (Inl err, w') \<Rightarrow> (Inl err, w')
      | (Inr ds, w') \<Rightarrow> (Inr (acc @ ds), w'))"
proof (induction labexts arbitrary: acc w)
  case Nil
  show ?case by (simp add: return_def)
next
  case (Cons l ls)
  show ?case
  proof (cases "l ''src''")
    case None
    then show ?thesis by (simp add: raise_def)
  next
    case (Some s)
    note s = this
    show ?thesis
    proof (cases "l ''dest''")
      case None
      with s show ?thesis by (simp add: raise_def)
    next
      case (Some d)
      obtain r w1 where dv:
        "develop_labextension e (PStr (pjoin b [s])) sl ow u ld (Some d) sp w = (r, w1)"
        by fastforce
      show ?thesis
      proof (cases r)
        case (Inl err)
        with s Some dv show ?thesis by (simp add: io_bind_def)
      next
        case (Inr fd)
        have 1: "install_all e b u sp ow sl ld ls (acc @ [fd]) w1 =
                   (case install_all e b u sp ow sl ld ls [] w1 of
                      (Inl err, w') \<Rightarrow> (Inl err, w')
                    | (Inr ds, w') \<Rightarrow> (Inr ((acc @ [fd]) @ ds), w'))"
          by (rule Cons.IH)
        have 2: "install_all e b u sp ow sl ld ls [fd] w1 =
                   (case install_all e b u sp ow sl ld ls [] w1 of
                      (Inl err, w') \<Rightarrow> (Inl err, w')
                    | (Inr ds, w') \<Rightarrow> (Inr ([fd] @ ds), w'))"
          by (rule Cons.IH)
        have l: "install_all e b u sp ow sl ld (l # ls) acc w
                   = install_all e b u sp ow sl ld ls (acc @ [fd]) w1"
          using s Some dv Inr by (simp add: io_bind_def)
        have r: "install_all e b u sp ow sl ld (l # ls) [] w
                   = install_all e b u sp ow sl ld ls [fd] w1"
          using s Some dv Inr by (simp add: io_bind_def)
        show ?thesis
          unfolding l r 1 2 by (simp split: prod.splits sum.splits)
      qed
    qed
  qed
qed


subsection \<open>A list or tuple as \<^verbatim>\<open>path\<close>\<close>

lemma develop_labextension_not_string:
  assumes "path = PList xs \<or> path = PTuple xs"
    and "get_labextension_dir e (selectors_of usr sys_pre labext_dir) = Inr labext"
  shows "develop_labextension e path symlink overwrite usr labext_dir destination sys_pre w
           = (case ensure_dir_exists labext w of
                (Inl err, w1) \<Rightarrow> (Inl err, w1)
              | (Inr u, w1) \<Rightarrow> (Inl (TypeError path_type_error), w1))"
proof -
  have a: "get_labextension_dir e
             \<lparr>user = usr, sys_prefix = sys_pre, prefix = None, labextensions_dir = labext_dir\<rparr>
           = Inr labext"
    using assms(2) by (simp only: selectors_of_def)
  from assms(1) show ?thesis
    by (subst develop_labextension_def, subst a)
       (auto simp add: io_bind_def raise_def split: prod.splits sum.splits)
qed

text \<open>
  C8, as the code has it. With a list or a tuple as \<^verbatim>\<open>path\<close>: where the root cannot
  be resolved, that error is raised and the world is as it was; otherwise
  \<^verbatim>\<open>ensure_dir_exists\<close> runs on the root first, and its error, if any, is what the call
  raises; only after it has returned is \<^verbatim>\<open>TypeError\<close> raised, in the world
  \<^verbatim>\<open>ensure_dir_exists\<close> left. There are calls in which the root directory is created
  before the \<^verbatim>\<open>TypeError\<close>.
\<close>

theorem list_path_rejected_after_root_creation:
  assumes "path = PList xs \<or> path = PTuple xs"
  shows "develop_labextension e path symlink overwrite usr labext_dir destination sys_pre w
           = (case get_labextension_dir e (selectors_of usr sys_pre labext_dir) of
                Inl err \<Rightarrow> (Inl err, w)
              | Inr labext \<Rightarrow>
                  (case ensure_dir_exists labext w of
                     (Inl err, w1) \<Rightarrow> (Inl err, w1)
                   | (Inr u, w1) \<Rightarrow> (Inl (TypeError path_type_error), w1)))
         \<and> (\<exists>w0 w'. develop_labextension example_env path symlink overwrite False
                        (Some ''/lab2'') destination False w0
                      = (Inl (TypeError path_type_error), w')
                    \<and> lstat_node w0 ''/lab2'' = None
                    \<and> lstat_node w' ''/lab2'' = Some (Dir (now w0))
                    \<and> new_calls w0 w' = [EnsureDirExists ''/lab2''])"
proof -
  have g: "develop_labextension e path symlink overwrite usr labext_dir destination sys_pre w
           = (case get_labextension_dir e (selectors_of usr sys_pre labext_dir) of
                Inl err \<Rightarrow> (Inl err, w)
              | Inr labext \<Rightarrow>
                  (case ensure_dir_exists labext w of
                     (Inl err, w1) \<Rightarrow> (Inl err, w1)
                   | (Inr u, w1) \<Rightarrow> (Inl (TypeError path_type_error), w1)))"
  proof (cases "get_labextension_dir e (selectors_of usr sys_pre labext_dir)")
    case (Inl err)
    then show ?thesis
      by (simp add: develop_labextension_unresolved)
  next
    case (Inr labext)
    then show ?thesis
      by (simp add: develop_labextension_not_string [OF assms Inr])
  qed
  have r: "get_labextension_dir example_env (selectors_of False False (Some ''/lab2''))
             = Inr ''/lab2''"
    by code_simp
  have f: "fst (ensure_dir_exists ''/lab2'' example_world) = Inr ()"
    by code_simp
  then have x: "ensure_dir_exists ''/lab2'' example_world
                  = (Inr (), snd (ensure_dir_exists ''/lab2'' example_world))"
    by (metis prod.collapse)
  have a: "lstat_node example_world ''/lab2'' = None"
    by code_simp
  have b: "lstat_node (snd (ensure_dir_exists ''/lab2'' example_world)) ''/lab2''
             = Some (Dir (now example_world))"
    by code_simp
  have c: "new_calls example_world (snd (ensure_dir_exists ''/lab2'' example_world))
             = [EnsureDirExists ''/lab2'']"
    by code_simp
  have "develop_labextension example_env path symlink overwrite False
          (Some ''/lab2'') destination False example_world
        = (Inl (TypeError path_type_error), snd (ensure_dir_exists ''/lab2'' example_world))"
    by (subst develop_labextension_not_string [OF assms r], subst x) simp
  with g a b c show ?thesis by blast
qed

theorem list_path_rejected_after_root_creation_witness:
  "develop_labextension example_env (PList [''/ext/foo'', ''/ext/bar'']) True False False
      (Some ''/lab2'') None False example_world
     = (Inl (TypeError path_type_error), snd (ensure_dir_exists ''/lab2'' example_world))
   \<and> files (snd (ensure_dir_exists ''/lab2'' example_world))
       = files example_world @ [([''lab2''], Dir 100)]"
proof -
  have r: "get_labextension_dir example_env (selectors_of False False (Some ''/lab2''))
             = Inr ''/lab2''"
    by code_simp
  have f: "fst (ensure_dir_exists ''/lab2'' example_world) = Inr ()"
    by code_simp
  then have x: "ensure_dir_exists ''/lab2'' example_world
                  = (Inr (), snd (ensure_dir_exists ''/lab2'' example_world))"
    by (metis prod.collapse)
  have c: "files (snd (ensure_dir_exists ''/lab2'' example_world))
             = files example_world @ [([''lab2''], Dir 100)]"
    by code_simp
  from list_path_rejected_after_root_creation
         [of "PList [''/ext/foo'', ''/ext/bar'']" "[''/ext/foo'', ''/ext/bar'']" example_env
             True False False "Some ''/lab2''" None False example_world]
  have "develop_labextension example_env (PList [''/ext/foo'', ''/ext/bar'']) True False False
          (Some ''/lab2'') None False example_world
        = (case ensure_dir_exists ''/lab2'' example_world of
             (Inl err, w1) \<Rightarrow> (Inl err, w1)
           | (Inr u, w1) \<Rightarrow> (Inl (TypeError path_type_error), w1))"
    by (simp add: r)
  also have "\<dots> = (Inl (TypeError path_type_error),
                     snd (ensure_dir_exists ''/lab2'' example_world))"
    by (subst x) simp
  finally show ?thesis
    using c by simp
qed

text \<open>
  C8 as stated fails where the root is the regular file \<^verbatim>\<open>/ext/foo/a.js\<close>: the call
  with a list as \<^verbatim>\<open>path\<close> raises the \<^verbatim>\<open>OSError\<close> of \<^verbatim>\<open>ensure_dir_exists\<close>, not
  \<^verbatim>\<open>TypeError\<close>.
\<close>

theorem list_path_root_is_file_counterexample:
  "develop_labextension example_env (PList [''/ext/foo'']) True False False
      (Some ''/ext/foo/a.js'') None False example_world
     = (Inl (OSError ExistsNotDirectory ''/ext/foo/a.js''),
        logged (EnsureDirExists ''/ext/foo/a.js'') example_world)
   \<and> OSError ExistsNotDirectory ''/ext/foo/a.js'' \<noteq> TypeError path_type_error"
  by code_simp

subsection \<open>Link mode\<close>

text \<open>
  C4. The claim: in link mode, where the destination exists and is already a symbolic
  link, the call is a no-op (no error), so that staging the same source twice leaves
  one link. The code, staging \<^verbatim>\<open>/ext/new\<close> (a source that is not on disk yet) to
  \<^verbatim>\<open>/lab\<close> twice: the first call creates the link \<^verbatim>\<open>/lab/new\<close> and returns its path;
  in the second, identical call the destination is that link, line 109 asks
  \<^verbatim>\<open>os.path.exists\<close>, which follows the link and answers false, and \<^verbatim>\<open>os.symlink\<close>
  raises \<^verbatim>\<open>FileExistsError\<close>. (Line 96 asks \<^verbatim>\<open>os.path.lexists\<close> for the same path.)
\<close>

theorem link_mode_restage_fails:
  "fst (develop_labextension example_env (PStr ''/ext/new'') True False False (Some ''/lab'')
          None False example_world) = Inr ''/lab/new''
   \<and> lstat_node (snd (develop_labextension example_env (PStr ''/ext/new'') True False False
                         (Some ''/lab'') None False example_world)) ''/lab/new''
       = Some (Link ''/ext/new'')
   \<and> fst (develop_labextension example_env (PStr ''/ext/new'') True False False (Some ''/lab'')
            None False
            (snd (develop_labextension example_env (PStr ''/ext/new'') True False False
                    (Some ''/lab'') None False example_world)))
       = Inl (OSError FileExistsError ''/lab/new'')
   \<and> new_calls example_world
        (snd (develop_labextension example_env (PStr ''/ext/new'') True False False
               (Some ''/lab'') None False
               (snd (develop_labextension example_env (PStr ''/ext/new'') True False False
                       (Some ''/lab'') None False example_world))))
       = [EnsureDirExists ''/lab'', Makedirs ''/lab'' True, Exists ''/lab/new'',
          Symlink ''/ext/new'' ''/lab/new'',
          EnsureDirExists ''/lab'', Makedirs ''/lab'' True, Exists ''/lab/new'',
          Symlink ''/ext/new'' ''/lab/new'']"
  by code_simp

text \<open>
  C9. The claim: in link mode, where the destination already exists as a symbolic link,
  the call returns successfully and leaves the link as it is, whatever its target. The
  code in \<open>example_world_dangling\<close>, where \<^verbatim>\<open>/lab/foo\<close> is a link to \<^verbatim>\<open>/gone\<close>, which
  does not exist, staging \<^verbatim>\<open>/ext/foo\<close>: \<^verbatim>\<open>os.path.exists\<close> of line 109 follows the
  link and answers false, so \<^verbatim>\<open>os.symlink\<close> is called on the existing link and raises
  \<^verbatim>\<open>FileExistsError\<close>; \<^verbatim>\<open>os.path.islink\<close> of line 113 is never asked.
\<close>

theorem existing_dangling_link_fails:
  "lstat_node example_world_dangling ''/lab/foo'' = Some (Link ''/gone'')
   \<and> stat_node example_world_dangling ''/gone'' = None
   \<and> develop_labextension example_env (PStr ''/ext/foo'') True False False (Some ''/lab'')
        None False example_world_dangling
       = (Inl (OSError FileExistsError ''/lab/foo''),
          example_world_dangling
            \<lparr>log := [EnsureDirExists ''/lab'', Makedirs ''/lab'' True, Exists ''/lab/foo'',
                     Symlink ''/ext/foo'' ''/lab/foo'']\<rparr>)"
  by code_simp

end
